theory Spec2Isabelle
  imports Complex_Main "HOL-Library.Code_Target_Nat"
begin

section \<open>Text, numbers and the regular expressions of the parser\<close>

text \<open>
  A Python \<open>str\<close> is a sequence of Unicode code points: \<open>str\<close> below is a list of
  code points. A Python \<open>float\<close> is modelled by an exact rational: sums, products and
  quotients carry no binary rounding error, and \<open>round(x, n)\<close> rounds to \<open>n\<close>
  decimal places, ties to even.
\<close>

type_synonym str = "nat list"

definition U :: "string \<Rightarrow> str" where
  "U s = map of_char s"

text \<open>
  The character tables of the Unicode database are not part of the repository; they are
  a parameter. \<open>to_upper\<close> is the full upper-case mapping of one code point
  (\<open>str.upper\<close> applies it to each code point in turn), \<open>decimal\<close> the value
  of a decimal digit (\<open>\d\<close> of the \<open>re\<close> module, and the digits \<open>float\<close> and
  \<open>Decimal\<close> accept).
\<close>

record unicode =
  to_upper :: "nat \<Rightarrow> str"
  decimal :: "nat \<Rightarrow> nat option"

text \<open>The tables on Latin-1: exact for code points below 256, the identity and no digit above.\<close>

definition latin1_upper :: "nat \<Rightarrow> str" where
  "latin1_upper c =
     (if 97 \<le> c \<and> c \<le> 122 then [c - 32]
      else if c = 181 then [924]
      else if c = 223 then [83, 83]
      else if c = 255 then [376]
      else if 224 \<le> c \<and> c \<le> 254 \<and> c \<noteq> 247 then [c - 32]
      else [c])"

definition ascii_decimal :: "nat \<Rightarrow> nat option" where
  "ascii_decimal c = (if 48 \<le> c \<and> c \<le> 57 then Some (c - 48) else None)"

definition latin1 :: unicode where
  "latin1 = \<lparr> to_upper = latin1_upper, decimal = ascii_decimal \<rparr>"

definition upper :: "unicode \<Rightarrow> str \<Rightarrow> str" where
  "upper T s = concat (map (to_upper T) s)"

definition is_digit :: "unicode \<Rightarrow> nat \<Rightarrow> bool" where
  "is_digit T c = (decimal T c \<noteq> None)"

text \<open>The code points \<open>\s\<close> matches and \<open>str.strip\<close> removes.\<close>

definition is_space :: "nat \<Rightarrow> bool" where
  "is_space c =
     ((9 \<le> c \<and> c \<le> 13) \<or> (28 \<le> c \<and> c \<le> 32) \<or> c = 133 \<or> c = 160 \<or> c = 5760
      \<or> (8192 \<le> c \<and> c \<le> 8202) \<or> c = 8232 \<or> c = 8233 \<or> c = 8239 \<or> c = 8287
      \<or> c = 12288)"

text \<open>\<open>w in s\<close>, \<open>s.endswith(w)\<close>.\<close>

definition startswith :: "str \<Rightarrow> str \<Rightarrow> bool" where
  "startswith s w = (take (length w) s = w)"

fun contains :: "str \<Rightarrow> str \<Rightarrow> bool" where
  "contains w [] = (w = [])"
| "contains w (c # cs) = (startswith (c # cs) w \<or> contains w cs)"

definition endswith :: "str \<Rightarrow> str \<Rightarrow> bool" where
  "endswith s w = (length w \<le> length s \<and> drop (length s - length w) s = w)"

text \<open>\<open>float(g)\<close> for a string \<open>g\<close> matched by \<open>\d+\.?\d*\<close>.\<close>

definition digits_value :: "unicode \<Rightarrow> str \<Rightarrow> nat" where
  "digits_value T ds = foldl (\<lambda>n c. 10 * n + (case decimal T c of Some d \<Rightarrow> d | None \<Rightarrow> 0)) 0 ds"

definition float_of :: "unicode \<Rightarrow> str \<Rightarrow> rat" where
  "float_of T g =
     (let ip = takeWhile (is_digit T) g;
          fp = (case dropWhile (is_digit T) g of
                  [] \<Rightarrow> []
                | c # r \<Rightarrow> if c = 46 then takeWhile (is_digit T) r else [])
      in of_nat (digits_value T ip) + of_nat (digits_value T fp) / 10 ^ length fp)"

text \<open>\<open>round(x, n)\<close>: the nearest multiple of \<open>10\<^sup>-\<^sup>n\<close>, a tie going to the even one.\<close>

definition round_half_even :: "rat \<Rightarrow> int" where
  "round_half_even x =
     (let f = \<lfloor>x\<rfloor>; d = x - of_int f
      in if d < 1 / 2 then f
         else if 1 / 2 < d then f + 1
         else if even f then f else f + 1)"

definition py_round :: "rat \<Rightarrow> nat \<Rightarrow> rat" where
  "py_round x n = of_int (round_half_even (x * 10 ^ n)) / 10 ^ n"

subsection \<open>A backtracking matcher\<close>

text \<open>
  The patterns of the parser, read as the \<open>re\<close> module reads them: alternatives are
  tried from left to right, \<open>?\<close>, \<open>*\<close> and \<open>+\<close> are greedy, and the first
  way to match that succeeds is the match. \<open>run r s\<close> lists what is left of \<open>s\<close>
  after each way \<open>r\<close> can match a prefix of \<open>s\<close>, in the order the matcher tries them.
\<close>

datatype rx =
    Sym "nat \<Rightarrow> bool"
  | Eps
  | Cat rx rx
  | Alt rx rx
  | Opt rx
  | Star rx

function run :: "rx \<Rightarrow> str \<Rightarrow> str list" where
  "run (Sym p) s = (case s of [] \<Rightarrow> [] | c # cs \<Rightarrow> if p c then [cs] else [])"
| "run Eps s = [s]"
| "run (Cat r1 r2) s = concat (map (run r2) (run r1 s))"
| "run (Alt r1 r2) s = run r1 s @ run r2 s"
| "run (Opt r) s = run r s @ [s]"
| "run (Star r) s =
     concat (map (run (Star r)) (filter (\<lambda>t. length t < length s) (run r s))) @ [s]"
  by pat_completeness auto
termination
  by (relation "measure size <*lex*> measure length") auto

definition Plus :: "rx \<Rightarrow> rx" where
  "Plus r = Cat r (Star r)"

definition chr :: "nat \<Rightarrow> rx" where
  "chr c = Sym (\<lambda>x. x = c)"

definition lit :: "str \<Rightarrow> rx" where
  "lit w = foldr (\<lambda>c r. Cat (chr c) r) w Eps"

text \<open>
  Under \<open>re.IGNORECASE\<close> a letter of the pattern matches both of its cases, and the
  code points that fold to it: the long s for \<open>s\<close>, the Kelvin sign for \<open>k\<close>, the
  dotted capital and the dotless small i for \<open>i\<close>.
\<close>

definition lower_ascii :: "nat \<Rightarrow> nat" where
  "lower_ascii c = (if 65 \<le> c \<and> c \<le> 90 then c + 32 else c)"

definition ci_eq :: "nat \<Rightarrow> nat \<Rightarrow> bool" where
  "ci_eq p c =
     (lower_ascii c = lower_ascii p
      \<or> (lower_ascii p = 115 \<and> c = 383)
      \<or> (lower_ascii p = 107 \<and> c = 8490)
      \<or> (lower_ascii p = 105 \<and> (c = 304 \<or> c = 305)))"

definition lit_ci :: "str \<Rightarrow> rx" where
  "lit_ci w = foldr (\<lambda>c r. Cat (Sym (ci_eq c)) r) w Eps"

text \<open>
  A pattern with one group is given in three parts: what precedes the group, the group,
  what follows it. \<open>match_at\<close> is \<open>re.match\<close> and returns the text of the group,
  \<open>re_search\<close> is \<open>re.search(...).group(1)\<close>: the first position of the text, from
  the left, at which the pattern matches.
\<close>

definition match_at :: "rx \<Rightarrow> rx \<Rightarrow> rx \<Rightarrow> str \<Rightarrow> str option" where
  "match_at pre grp post s =
     (case concat (map (\<lambda>a. concat (map (\<lambda>b. if run post b = [] then []
                                                 else [take (length a - length b) a])
                                       (run grp a)))
                       (run pre s)) of
        [] \<Rightarrow> None
      | g # _ \<Rightarrow> Some g)"

fun re_search :: "rx \<Rightarrow> rx \<Rightarrow> rx \<Rightarrow> str \<Rightarrow> str option" where
  "re_search pre grp post [] = match_at pre grp post []"
| "re_search pre grp post (c # cs) =
     (case match_at pre grp post (c # cs) of
        Some g \<Rightarrow> Some g
      | None \<Rightarrow> re_search pre grp post cs)"

section \<open>The signal parser (\<open>telegram_parser.py\<close>)\<close>

record ParsedSignalData =
  pair :: str
  setup_type :: str
  entry :: rat
  stop_loss :: rat
  take_profit :: rat
  original_sl :: "rat option"
  original_tp :: "rat option"

text \<open>A \<open>TelegramParser\<close> object holds the two percentages.\<close>

record TelegramParser =
  sl_percentage :: rat
  tp_percentage :: rat

definition default_parser :: TelegramParser where
  "default_parser = \<lparr> sl_percentage = 5, tp_percentage = 5 / 2 \<rparr>"

text \<open>
  The two indicator glyphs, as the source file stores them: four code points each. The
  arrow in the class of \<open>TAKE_PROFIT_PATTERN\<close> is stored as three code points.
\<close>

definition green_glyph :: str where
  "green_glyph = [63743, 252, 252, 162]"

definition red_glyph :: str where
  "red_glyph = [63743, 252, 238, 165]"

definition arrow_class :: "nat \<Rightarrow> bool" where
  "arrow_class c = (c = 8218 \<or> c = 220 \<or> c = 252 \<or> c = 237 \<or> c = 205)"

definition LONG :: str where
  "LONG = U ''LONG''"

definition SHORT :: str where
  "SHORT = U ''SHORT''"

text \<open>\<open>\d+\.?\d*\<close>, \<open>\s*\<close> and \<open>[:\s]*\$?\<close>.\<close>

definition number :: "unicode \<Rightarrow> rx" where
  "number T = Cat (Plus (Sym (is_digit T))) (Cat (Opt (chr 46)) (Star (Sym (is_digit T))))"

definition spaces :: rx where
  "spaces = Star (Sym is_space)"

definition colon_spaces_dollar :: rx where
  "colon_spaces_dollar = Cat (Star (Sym (\<lambda>c. c = 58 \<or> is_space c))) (Opt (chr 36))"

text \<open>\<open>PAIR_PATTERN = r'#?([A-Z0-9]+(?:USDT|BUSD|BTC|ETH)\.?P?)'\<close>\<close>

definition PAIR_pre :: rx where
  "PAIR_pre = Opt (chr 35)"

definition PAIR_group :: rx where
  "PAIR_group =
     Cat (Plus (Sym (\<lambda>c. (65 \<le> c \<and> c \<le> 90) \<or> (48 \<le> c \<and> c \<le> 57))))
       (Cat (Alt (lit (U ''USDT'')) (Alt (lit (U ''BUSD'')) (Alt (lit (U ''BTC'')) (lit (U ''ETH'')))))
         (Cat (Opt (chr 46)) (Opt (chr 80))))"

text \<open>\<open>DIRECTION_PATTERN = r'(LONG|SHORT)\s*[..]?'\<close>, the class holding the glyphs.\<close>

definition DIRECTION_group :: rx where
  "DIRECTION_group = Alt (lit LONG) (lit SHORT)"

definition DIRECTION_post :: rx where
  "DIRECTION_post = Cat spaces (Opt (Sym (\<lambda>c. c \<in> set (green_glyph @ red_glyph))))"

text \<open>\<open>ENTRY_PATTERN = r'Entry[:\s]*\$?(\d+\.?\d*)'\<close>\<close>

definition ENTRY_pre :: rx where
  "ENTRY_pre = Cat (lit_ci (U ''Entry'')) colon_spaces_dollar"

text \<open>\<open>cmp_pattern = r'(\d+\.?\d*)\s*\(?CMP\)?'\<close>\<close>

definition CMP_post :: rx where
  "CMP_post = Cat spaces (Cat (Opt (chr 40)) (Cat (lit_ci (U ''CMP'')) (Opt (chr 41))))"

text \<open>\<open>STOP_LOSS_PATTERN = r'(?:Stop\s*Loss|SL)[:\s]*\$?(\d+\.?\d*)'\<close>\<close>

definition STOP_LOSS_pre :: rx where
  "STOP_LOSS_pre =
     Cat (Alt (Cat (lit_ci (U ''Stop'')) (Cat spaces (lit_ci (U ''Loss'')))) (lit_ci (U ''SL'')))
       colon_spaces_dollar"

text \<open>\<open>TAKE_PROFIT_PATTERN = r'(?:Take\s*Profit|TP|TP\s*\d)[:\s..]*\$?(\d+\.?\d*)'\<close>\<close>

definition TAKE_PROFIT_pre :: "unicode \<Rightarrow> rx" where
  "TAKE_PROFIT_pre T =
     Cat (Alt (Cat (lit_ci (U ''Take'')) (Cat spaces (lit_ci (U ''Profit''))))
            (Alt (lit_ci (U ''TP''))
               (Cat (lit_ci (U ''TP'')) (Cat spaces (Sym (is_digit T))))))
       (Cat (Star (Sym (\<lambda>c. c = 58 \<or> is_space c \<or> arrow_class c))) (Opt (chr 36)))"

definition extract_pair :: "unicode \<Rightarrow> str \<Rightarrow> str option" where
  "extract_pair T message =
     (case re_search PAIR_pre PAIR_group Eps (upper T message) of
        None \<Rightarrow> None
      | Some p \<Rightarrow>
          if endswith p (U ''.P'') then Some (take (length p - 2) p)
          else if endswith p (U ''P'') \<and> \<not> endswith p (U ''USDT'') then Some (take (length p - 1) p)
          else Some p)"

definition extract_direction :: "unicode \<Rightarrow> str \<Rightarrow> str option" where
  "extract_direction T message =
     (case re_search Eps DIRECTION_group DIRECTION_post (upper T message) of
        Some d \<Rightarrow> Some d
      | None \<Rightarrow>
          if contains green_glyph message \<and> \<not> contains LONG (upper T message) then Some LONG
          else if contains red_glyph message \<and> \<not> contains SHORT (upper T message) then Some SHORT
          else None)"

definition extract_entry :: "unicode \<Rightarrow> str \<Rightarrow> rat option" where
  "extract_entry T message =
     (case re_search ENTRY_pre (number T) Eps message of
        Some g \<Rightarrow> Some (float_of T g)
      | None \<Rightarrow>
          (case re_search Eps (number T) CMP_post message of
             Some g \<Rightarrow> Some (float_of T g)
           | None \<Rightarrow> None))"

definition extract_stop_loss :: "unicode \<Rightarrow> str \<Rightarrow> rat option" where
  "extract_stop_loss T message =
     map_option (float_of T) (re_search STOP_LOSS_pre (number T) Eps message)"

definition extract_take_profit :: "unicode \<Rightarrow> str \<Rightarrow> rat option" where
  "extract_take_profit T message =
     map_option (float_of T) (re_search (TAKE_PROFIT_pre T) (number T) Eps message)"

definition calculate_sl_tp :: "TelegramParser \<Rightarrow> rat \<Rightarrow> str \<Rightarrow> rat \<times> rat" where
  "calculate_sl_tp P e direction =
     (let sl_multiplier = sl_percentage P / 100;
          tp_multiplier = tp_percentage P / 100
      in if direction = LONG
         then (py_round (e * (1 - sl_multiplier)) 8, py_round (e * (1 + tp_multiplier)) 8)
         else (py_round (e * (1 + sl_multiplier)) 8, py_round (e * (1 - tp_multiplier)) 8))"

definition parse_message :: "unicode \<Rightarrow> TelegramParser \<Rightarrow> str \<Rightarrow> ParsedSignalData option" where
  "parse_message T P message =
     (case extract_pair T message of
        None \<Rightarrow> None
      | Some p \<Rightarrow>
          if p = [] then None
          else (case extract_direction T message of
             None \<Rightarrow> None
           | Some direction \<Rightarrow>
               if direction = [] then None
               else (case extract_entry T message of
                  None \<Rightarrow> None
                | Some e \<Rightarrow>
                    if e = 0 then None
                    else (case calculate_sl_tp P e direction of
                       (sl, tp) \<Rightarrow>
                         Some \<lparr> pair = p, setup_type = direction, entry = e,
                                stop_loss = sl, take_profit = tp,
                                original_sl = extract_stop_loss T message,
                                original_tp = extract_take_profit T message \<rparr>))))"

section \<open>The exchange gateway (\<open>binance_service.py\<close>)\<close>

record OrderResult =
  o_success :: bool
  o_order_id :: "str option"
  o_quantity :: "rat option"
  o_price :: "rat option"
  o_status :: "str option"
  o_message :: "str option"

record PositionInfo =
  p_symbol :: str
  p_side :: str
  p_quantity :: rat
  p_margin_type :: str
  p_notional_value :: rat

text \<open>
  One entry of the \<open>filters\<close> list of a symbol's trading rules: the filter type, the
  step size as the exchange writes it (a string), the minimum notional as a number. A key
  the entry does not have is \<open>None\<close>.
\<close>

record symbol_filter =
  filterType :: str
  stepSize :: "str option"
  notional :: "rat option"

record symbol_info =
  filters :: "symbol_filter list"

text \<open>
  What the exchange answers. Each field stands for one method of \<open>BinanceService\<close>
  that does nothing but send a request and read the answer: the list of live positions,
  the leverage cap of a symbol, whether the answer to the leverage request holds the key
  \<open>leverage\<close>, the trading rules, the mark price, and the result of each order
  placement (symbol, side, quantity or trigger price, price or quantity, as the method
  takes them).
\<close>

record exchange =
  get_positions :: "PositionInfo list"
  get_max_leverage :: "str \<Rightarrow> int"
  leverage_accepted :: "str \<Rightarrow> int \<Rightarrow> bool"
  get_symbol_info :: "str \<Rightarrow> symbol_info option"
  get_current_price :: "str \<Rightarrow> rat option"
  place_limit_order :: "str \<Rightarrow> str \<Rightarrow> rat \<Rightarrow> rat \<Rightarrow> str \<Rightarrow> OrderResult"
  place_stop_loss :: "str \<Rightarrow> str \<Rightarrow> rat \<Rightarrow> rat \<Rightarrow> OrderResult"
  place_take_profit :: "str \<Rightarrow> str \<Rightarrow> rat \<Rightarrow> rat \<Rightarrow> OrderResult"
  place_market_order :: "str \<Rightarrow> str \<Rightarrow> rat \<Rightarrow> bool \<Rightarrow> OrderResult"

text \<open>The requests that change something at the exchange, in the order they are sent.\<close>

datatype call =
    SetLeverage str int
  | SetMarginType str str
  | LimitOrder str str rat rat str
  | StopLossOrder str str rat rat
  | TakeProfitOrder str str rat rat
  | MarketOrder str str rat bool
  | CancelAllOrders str


definition get_position_for_symbol :: "exchange \<Rightarrow> str \<Rightarrow> PositionInfo option" where
  "get_position_for_symbol ex symbol = find (\<lambda>pos. p_symbol pos = symbol) (get_positions ex)"

definition set_leverage :: "exchange \<Rightarrow> str \<Rightarrow> int \<Rightarrow> bool \<times> call list" where
  "set_leverage ex symbol lev =
     (let max_leverage = get_max_leverage ex symbol;
          lev' = (if lev > max_leverage then max_leverage else lev)
      in (leverage_accepted ex symbol lev', [SetLeverage symbol lev']))"

definition get_min_notional :: "exchange \<Rightarrow> str \<Rightarrow> rat" where
  "get_min_notional ex symbol =
     (case get_symbol_info ex symbol of
        None \<Rightarrow> 5
      | Some info \<Rightarrow>
          (case find (\<lambda>f. filterType f = U ''MIN_NOTIONAL'') (filters info) of
             None \<Rightarrow> 5
           | Some f \<Rightarrow> (case notional f of None \<Rightarrow> 5 | Some n \<Rightarrow> n)))"

text \<open>
  \<open>Decimal(s).as_tuple().exponent\<close> for a finite number: surrounding white space and
  underscores are dropped; a sign, digits with an optional point (one digit at least), an
  optional exponent. The exponent of the tuple is the written exponent less the number of
  digits after the point. \<open>None\<close> stands for every string on which the expression, or
  \<open>abs\<close> of it, raises: no number, \<open>NaN\<close>, \<open>Infinity\<close>.
\<close>

definition strip :: "str \<Rightarrow> str" where
  "strip s = rev (dropWhile is_space (rev (dropWhile is_space s)))"

definition drop_sign :: "str \<Rightarrow> str" where
  "drop_sign s = (case s of [] \<Rightarrow> [] | c # r \<Rightarrow> if c = 43 \<or> c = 45 then r else c # r)"

definition signed_value :: "unicode \<Rightarrow> str \<Rightarrow> int option" where
  "signed_value T s =
     (let ds = drop_sign s
      in if ds = [] \<or> \<not> list_all (is_digit T) ds then None
         else if s \<noteq> [] \<and> hd s = 45 then Some (- int (digits_value T ds))
         else Some (int (digits_value T ds)))"

definition written_exponent :: "unicode \<Rightarrow> str \<Rightarrow> int option" where
  "written_exponent T s =
     (case s of
        [] \<Rightarrow> Some 0
      | c # r \<Rightarrow> if c = 69 \<or> c = 101 then signed_value T r else None)"

definition decimal_exponent :: "unicode \<Rightarrow> str \<Rightarrow> int option" where
  "decimal_exponent T s =
     (let body = drop_sign (filter (\<lambda>c. c \<noteq> 95) (strip s));
          ip = takeWhile (is_digit T) body;
          r1 = dropWhile (is_digit T) body;
          point = (r1 \<noteq> [] \<and> hd r1 = 46);
          fp = (if point then takeWhile (is_digit T) (tl r1) else []);
          r2 = (if point then dropWhile (is_digit T) (tl r1) else r1)
      in if ip = [] \<and> fp = [] then None
         else map_option (\<lambda>e. e - int (length fp)) (written_exponent T r2))"

text \<open>
  \<open>calculate_quantity\<close>. The entry price is optional in the source; without one, or
  with a zero one, the mark price is used. Every exception is caught and gives \<open>None\<close>.
\<close>

definition calculate_quantity ::
  "unicode \<Rightarrow> exchange \<Rightarrow> str \<Rightarrow> rat \<Rightarrow> int \<Rightarrow> rat option \<Rightarrow> rat option" where
  "calculate_quantity T ex symbol position_size_usd lev entry_price =
     (case (case entry_price of
              None \<Rightarrow> get_current_price ex symbol
            | Some p \<Rightarrow> if p \<noteq> 0 then Some p else get_current_price ex symbol) of
        None \<Rightarrow> None
      | Some price \<Rightarrow>
          if price = 0 then None
          else (case get_symbol_info ex symbol of
             None \<Rightarrow> None
           | Some info \<Rightarrow>
               (let notional_value = position_size_usd * of_int lev;
                    qty = notional_value / price
                in case find (\<lambda>f. filterType f = U ''LOT_SIZE'') (filters info) of
                     None \<Rightarrow> Some (py_round qty 3)
                   | Some f \<Rightarrow>
                       (case stepSize f of
                          None \<Rightarrow> None
                        | Some step \<Rightarrow>
                            (case decimal_exponent T step of
                               None \<Rightarrow> None
                             | Some e \<Rightarrow> Some (py_round qty (nat \<bar>e\<bar>)))))))"

text \<open>The result dictionary of \<open>open_position\<close>; the message is kept by its kind.\<close>

datatype reason =
    NoNote
  | MarginTypeMismatch
  | PositionExists
  | LeverageFailed
  | QuantityFailed
  | BelowMinNotional
  | EntryFailed
  | Placed

record results =
  r_success :: bool
  entry_order :: "OrderResult option"
  sl_order :: "OrderResult option"
  tp_order :: "OrderResult option"
  r_message :: reason

definition results0 :: results where
  "results0 = \<lparr> r_success = False, entry_order = None, sl_order = None, tp_order = None,
                r_message = NoNote \<rparr>"

text \<open>
  Steps 4 to 6: the entry order, then the stop loss and the take profit, both for the
  quantity of the entry order's result. Were that quantity missing, the product of
  quantity and trigger price would raise inside \<open>place_stop_loss\<close> and
  \<open>place_take_profit\<close>, which catch it and return a failed result without a request.
\<close>

definition no_quantity :: OrderResult where
  "no_quantity = \<lparr> o_success = False, o_order_id = None, o_quantity = None, o_price = None,
                   o_status = None, o_message = Some (U ''TypeError'') \<rparr>"

definition place_orders ::
  "exchange \<Rightarrow> str \<Rightarrow> str \<Rightarrow> rat \<Rightarrow> rat \<Rightarrow> rat \<Rightarrow> rat \<Rightarrow> str \<Rightarrow> results \<times> call list" where
  "place_orders ex symbol side qty eprice sl tp tif =
     (let entry_side = (if side = LONG then U ''BUY'' else U ''SELL'');
          entry_result = place_limit_order ex symbol entry_side qty eprice tif;
          c1 = [LimitOrder symbol entry_side qty eprice tif]
      in if \<not> o_success entry_result
         then (results0 \<lparr> entry_order := Some entry_result, r_message := EntryFailed \<rparr>, c1)
         else (case o_quantity entry_result of
            None \<Rightarrow>
              (\<lparr> r_success = True, entry_order = Some entry_result,
                  sl_order = Some no_quantity, tp_order = Some no_quantity,
                  r_message = Placed \<rparr>, c1)
          | Some order_quantity \<Rightarrow>
              (let sl_side = (if side = LONG then U ''SELL'' else U ''BUY'');
                   sl_result = place_stop_loss ex symbol sl_side sl order_quantity;
                   tp_result = place_take_profit ex symbol sl_side tp order_quantity
               in (\<lparr> r_success = True, entry_order = Some entry_result,
                      sl_order = Some sl_result, tp_order = Some tp_result,
                      r_message = Placed \<rparr>,
                   c1 @ [StopLossOrder symbol sl_side sl order_quantity,
                         TakeProfitOrder symbol sl_side tp order_quantity]))))"

text \<open>Steps 1 to 3.5: leverage, margin type, quantity, minimum notional.\<close>

definition prepare_and_place ::
  "unicode \<Rightarrow> exchange \<Rightarrow> str \<Rightarrow> str \<Rightarrow> rat \<Rightarrow> int \<Rightarrow> str \<Rightarrow> rat \<Rightarrow> rat \<Rightarrow> rat \<Rightarrow> str
     \<Rightarrow> results \<times> call list" where
  "prepare_and_place T ex symbol side position_size_usd lev mtype eprice sl tp tif =
     (case set_leverage ex symbol lev of
        (ok, c1) \<Rightarrow>
          if \<not> ok then (results0 \<lparr> r_message := LeverageFailed \<rparr>, c1)
          else (let c2 = c1 @ [SetMarginType symbol mtype]
                in case calculate_quantity T ex symbol position_size_usd lev (Some eprice) of
                     None \<Rightarrow> (results0 \<lparr> r_message := QuantityFailed \<rparr>, c2)
                   | Some qty \<Rightarrow>
                       if qty = 0 then (results0 \<lparr> r_message := QuantityFailed \<rparr>, c2)
                       else (let entry_notional = qty * eprice;
                                 MIN_NOTIONAL = get_min_notional ex symbol + 1 / 10
                             in if entry_notional \<le> MIN_NOTIONAL
                                then (results0 \<lparr> r_message := BelowMinNotional \<rparr>, c2)
                                else (case place_orders ex symbol side qty eprice sl tp tif of
                                        (res, c3) \<Rightarrow> (res, c2 @ c3)))))"

text \<open>\<open>open_position\<close>: step 0, the guard against a second position, then the rest.\<close>

definition open_position ::
  "unicode \<Rightarrow> exchange \<Rightarrow> str \<Rightarrow> str \<Rightarrow> rat \<Rightarrow> int \<Rightarrow> str \<Rightarrow> rat \<Rightarrow> rat \<Rightarrow> rat \<Rightarrow> str
     \<Rightarrow> results \<times> call list" where
  "open_position T ex symbol side position_size_usd lev mtype eprice sl tp tif =
     (case get_position_for_symbol ex symbol of
        None \<Rightarrow> prepare_and_place T ex symbol side position_size_usd lev mtype eprice sl tp tif
      | Some existing \<Rightarrow>
          if p_quantity existing > 0
          then (if p_margin_type existing \<noteq> mtype
                then (results0 \<lparr> r_message := MarginTypeMismatch \<rparr>, [])
                else (results0 \<lparr> r_message := PositionExists \<rparr>, []))
          else prepare_and_place T ex symbol side position_size_usd lev mtype eprice sl tp tif)"

text \<open>\<open>close_position\<close>: no position, no order; else cancel the open orders and sell or buy back.\<close>

definition close_position :: "exchange \<Rightarrow> str \<Rightarrow> OrderResult \<times> call list" where
  "close_position ex symbol =
     (case get_position_for_symbol ex symbol of
        None \<Rightarrow> (\<lparr> o_success = False, o_order_id = None, o_quantity = None, o_price = None,
                    o_status = None, o_message = Some (U ''No position found'') \<rparr>, [])
      | Some position \<Rightarrow>
          (let close_side = (if p_side position = LONG then U ''SELL'' else U ''BUY'')
           in (place_market_order ex symbol close_side (p_quantity position) True,
               [CancelAllOrders symbol, MarketOrder symbol close_side (p_quantity position) True])))"

section \<open>The trade service (\<open>trade_service.py\<close>) and the listener's handler\<close>

text \<open>The rows of the database, and the database as the lists of its rows. Times are clock readings.\<close>

record MarketMessage =
  m_id :: nat
  m_sender :: "str option"
  m_text :: str
  m_timestamp :: nat

record SignalMessage =
  s_id :: nat
  s_pair :: str
  s_setup_type :: str
  s_entry :: rat
  s_stop_loss :: rat
  s_take_profit :: rat
  s_full_message :: str
  s_channel :: "str option"
  s_timestamp :: nat

record Trade =
  t_id :: nat
  t_user_id :: nat
  t_signal_id :: "nat option"
  t_pair :: str
  t_side :: str
  t_leverage :: int
  t_entry_price :: "rat option"
  t_entry_quantity :: "rat option"
  t_binance_order_id :: "str option"
  t_stop_loss :: "rat option"
  t_take_profit :: "rat option"
  t_tp :: "rat option"
  t_status :: str
  t_opened_at :: "nat option"
  t_closed_at :: "nat option"
  t_exit_price :: "rat option"
  t_pnl :: "rat option"
  t_pnl_percent :: "rat option"
  t_exit_reason :: "str option"
  t_created_at :: nat

record TradeManagementConfig =
  c_user_id :: nat
  margin_mode :: str
  max_leverage :: rat
  max_position_size :: rat
  c_sl_percentage :: rat
  c_tp_percentage :: rat
  auto_execute_trades :: bool
  c_updated_at :: nat

record database =
  market_messages :: "MarketMessage list"
  signal_messages :: "SignalMessage list"
  trades :: "Trade list"
  configs :: "TradeManagementConfig list"

text \<open>The defaults of \<open>config.py\<close>; the environment may override them.\<close>

record Settings =
  default_leverage :: int
  default_position_size :: rat
  default_sl_percentage :: rat
  default_tp_percentage :: rat
  default_margin_mode :: str
  settings_auto_execute_trades :: bool

definition settings0 :: Settings where
  "settings0 = \<lparr> default_leverage = 20, default_position_size = 50,
                  default_sl_percentage = 5, default_tp_percentage = 5 / 2,
                  default_margin_mode = U ''CROSSED'', settings_auto_execute_trades = True \<rparr>"

record TelegramMessageInput =
  text_of :: str
  sender :: "str option"
  channel :: "str option"

text \<open>An autoincrement key: one more than the largest key of the table.\<close>

definition next_id :: "nat list \<Rightarrow> nat" where
  "next_id ids = Suc (fold max ids 0)"

text \<open>\<open>int(x)\<close> truncates towards zero.\<close>

definition py_int :: "rat \<Rightarrow> int" where
  "py_int x = (if 0 \<le> x then \<lfloor>x\<rfloor> else \<lceil>x\<rceil>)"

definition get_config :: "Settings \<Rightarrow> nat \<Rightarrow> database \<Rightarrow> nat \<Rightarrow> TradeManagementConfig \<times> database" where
  "get_config st now db user_id =
     (case find (\<lambda>c. c_user_id c = user_id) (configs db) of
        Some c \<Rightarrow> (c, db)
      | None \<Rightarrow>
          (let c = \<lparr> c_user_id = user_id, margin_mode = default_margin_mode st,
                     max_leverage = of_int (default_leverage st),
                     max_position_size = default_position_size st,
                     c_sl_percentage = default_sl_percentage st,
                     c_tp_percentage = default_tp_percentage st,
                     auto_execute_trades = True, c_updated_at = now \<rparr>
           in (c, db \<lparr> configs := configs db @ [c] \<rparr>)))"

datatype svc_message =
    Blank
  | ParseFailed
  | SignalNotFound
  | ExecutionFailed reason
  | OrderPlaced
  | SignalStored
  | TradeNotFound
  | TradeNotOpen
  | CloseFailed
  | TradeClosed

record svc_result =
  sr_success :: bool
  sr_signal :: "SignalMessage option"
  sr_trade :: "Trade option"
  sr_message :: svc_message

definition svc_result0 :: svc_result where
  "svc_result0 = \<lparr> sr_success = False, sr_signal = None, sr_trade = None, sr_message = Blank \<rparr>"

definition OPEN :: str where
  "OPEN = U ''OPEN''"

definition PENDING :: str where
  "PENDING = U ''PENDING''"

definition CLOSED :: str where
  "CLOSED = U ''CLOSED''"

text \<open>
  \<open>execute_trade_from_signal\<close>: the position is opened at the exchange first; a trade
  row is written only if that succeeded, its status read off the status of the entry order.
\<close>

definition initial_status :: "OrderResult option \<Rightarrow> nat \<Rightarrow> str \<times> nat option" where
  "initial_status eo now =
     (let order_status = (case eo of None \<Rightarrow> Some PENDING | Some e \<Rightarrow> o_status e)
      in if order_status = Some (U ''FILLED'') then (OPEN, Some now)
         else if order_status = Some (U ''NEW'') \<or> order_status = Some (U ''PARTIALLY_FILLED'')
         then (PENDING, None)
         else (OPEN, Some now))"

definition execute_trade_from_signal ::
  "unicode \<Rightarrow> exchange \<Rightarrow> Settings \<Rightarrow> nat \<Rightarrow> database \<Rightarrow> nat \<Rightarrow> nat
     \<Rightarrow> svc_result \<times> database \<times> call list" where
  "execute_trade_from_signal T ex st now db signal_id user_id =
     (case find (\<lambda>s. s_id s = signal_id) (signal_messages db) of
        None \<Rightarrow> (svc_result0 \<lparr> sr_message := SignalNotFound \<rparr>, db, [])
      | Some sig \<Rightarrow>
          (case get_config st now db user_id of
             (config, db1) \<Rightarrow>
               (case open_position T ex (s_pair sig) (s_setup_type sig) (max_position_size config)
                       (py_int (max_leverage config)) (margin_mode config) (s_entry sig)
                       (s_stop_loss sig) (s_take_profit sig) (U ''GTC'') of
                  (binance_result, calls) \<Rightarrow>
                    if r_success binance_result
                    then (let eo = entry_order binance_result;
                              trade = \<lparr> t_id = next_id (map t_id (trades db1)),
                                        t_user_id = user_id,
                                        t_signal_id = Some (s_id sig),
                                        t_pair = s_pair sig,
                                        t_side = s_setup_type sig,
                                        t_leverage = py_int (max_leverage config),
                                        t_entry_price =
                                          (case eo of None \<Rightarrow> Some (s_entry sig) | Some e \<Rightarrow> o_price e),
                                        t_entry_quantity =
                                          (case eo of None \<Rightarrow> None | Some e \<Rightarrow> o_quantity e),
                                        t_binance_order_id =
                                          (case eo of None \<Rightarrow> None | Some e \<Rightarrow> o_order_id e),
                                        t_stop_loss = Some (s_stop_loss sig),
                                        t_take_profit = Some (s_take_profit sig),
                                        t_tp = Some (s_take_profit sig),
                                        t_status = fst (initial_status eo now),
                                        t_opened_at = snd (initial_status eo now),
                                        t_closed_at = None, t_exit_price = None, t_pnl = None,
                                        t_pnl_percent = None, t_exit_reason = None,
                                        t_created_at = now \<rparr>
                          in (\<lparr> sr_success = True, sr_signal = None, sr_trade = Some trade,
                                 sr_message = OrderPlaced \<rparr>,
                              db1 \<lparr> trades := trades db1 @ [trade] \<rparr>, calls))
                    else (svc_result0 \<lparr> sr_message := ExecutionFailed (r_message binance_result) \<rparr>,
                          db1, calls))))"

text \<open>
  \<open>process_telegram_message\<close>: the raw message is stored, then parsed; a parsed signal
  is stored, and executed if both the caller's flag and the stored configuration say so.
\<close>

definition process_telegram_message ::
  "unicode \<Rightarrow> exchange \<Rightarrow> Settings \<Rightarrow> nat \<Rightarrow> database \<Rightarrow> TelegramMessageInput \<Rightarrow> nat \<Rightarrow> bool
     \<Rightarrow> svc_result \<times> database \<times> call list" where
  "process_telegram_message T ex st now db message_input user_id auto_execute =
     (case get_config st now db user_id of
        (config, db1) \<Rightarrow>
          (let parser = \<lparr> sl_percentage = c_sl_percentage config,
                          tp_percentage = c_tp_percentage config \<rparr>;
               market_message = \<lparr> m_id = next_id (map m_id (market_messages db1)),
                                  m_sender = sender message_input,
                                  m_text = text_of message_input, m_timestamp = now \<rparr>;
               db2 = db1 \<lparr> market_messages := market_messages db1 @ [market_message] \<rparr>
           in case parse_message T parser (text_of message_input) of
                None \<Rightarrow> (svc_result0 \<lparr> sr_message := ParseFailed \<rparr>, db2, [])
              | Some parsed \<Rightarrow>
                  (let sig = \<lparr> s_id = next_id (map s_id (signal_messages db2)),
                               s_pair = pair parsed, s_setup_type = setup_type parsed,
                               s_entry = entry parsed, s_stop_loss = stop_loss parsed,
                               s_take_profit = take_profit parsed,
                               s_full_message = text_of message_input,
                               s_channel = channel message_input, s_timestamp = now \<rparr>;
                       db3 = db2 \<lparr> signal_messages := signal_messages db2 @ [sig] \<rparr>
                   in if auto_execute \<and> auto_execute_trades config
                      then (case execute_trade_from_signal T ex st now db3 (s_id sig) user_id of
                              (tr, db4, calls) \<Rightarrow> (tr \<lparr> sr_signal := Some sig \<rparr>, db4, calls))
                      else (\<lparr> sr_success = True, sr_signal = Some sig, sr_trade = None,
                               sr_message = SignalStored \<rparr>, db3, []))))"

text \<open>
  \<open>TelegramSignalProcessor._handle_signal\<close>: a text without \<open>#\<close>, or one its own
  parser (with the default percentages) cannot parse, is dropped before the trade service
  is called.
\<close>

definition handle_signal ::
  "unicode \<Rightarrow> exchange \<Rightarrow> Settings \<Rightarrow> nat \<Rightarrow> database \<Rightarrow> str \<Rightarrow> str \<Rightarrow> database \<times> call list" where
  "handle_signal T ex st now db txt sndr =
     (if 35 \<notin> set txt then (db, [])
      else (case parse_message T default_parser txt of
              None \<Rightarrow> (db, [])
            | Some parsed \<Rightarrow>
                (case process_telegram_message T ex st now db
                        \<lparr> text_of = txt, sender = Some sndr, channel = Some (U ''Telegram Auto'') \<rparr>
                        1 (settings_auto_execute_trades st) of
                   (res, db', calls) \<Rightarrow> (db', calls))))"

text \<open>\<open>close_trade\<close>: the row is changed only after the exchange has closed the position.\<close>

text \<open>\<open>x and P(x)\<close> for an optional number: \<open>None\<close> and zero are false.\<close>

definition set_and :: "rat option \<Rightarrow> (rat \<Rightarrow> bool) \<Rightarrow> bool" where
  "set_and x P = (case x of None \<Rightarrow> False | Some v \<Rightarrow> v \<noteq> 0 \<and> P v)"

definition with_pnl :: "Trade \<Rightarrow> Trade \<Rightarrow> rat \<Rightarrow> rat \<Rightarrow> Trade" where
  "with_pnl trade t1 ep cp =
     (let pnl_percent = (if t_side trade = LONG then (cp - ep) / ep * 100
                         else (ep - cp) / ep * 100);
          t2 = t1 \<lparr> t_pnl_percent := Some pnl_percent \<rparr>
      in case t_entry_quantity trade of
           None \<Rightarrow> t2
         | Some q \<Rightarrow> if q = 0 then t2 else t2 \<lparr> t_pnl := Some (pnl_percent / 100 * q * ep) \<rparr>)"

definition closed_trade :: "Trade \<Rightarrow> OrderResult \<Rightarrow> nat \<Rightarrow> Trade" where
  "closed_trade trade close_result now =
     (let t1 = trade \<lparr> t_status := CLOSED, t_closed_at := Some now,
                       t_exit_price := o_price close_result,
                       t_exit_reason := Some (U ''MANUAL'') \<rparr>
      in case t_entry_price trade of
           None \<Rightarrow> t1
         | Some ep \<Rightarrow>
             (case o_price close_result of
                None \<Rightarrow> t1
              | Some cp \<Rightarrow> if ep = 0 \<or> cp = 0 then t1 else with_pnl trade t1 ep cp))"

definition close_trade ::
  "exchange \<Rightarrow> nat \<Rightarrow> database \<Rightarrow> nat \<Rightarrow> svc_result \<times> database \<times> call list" where
  "close_trade ex now db trade_id =
     (case find (\<lambda>t. t_id t = trade_id) (trades db) of
        None \<Rightarrow> (svc_result0 \<lparr> sr_message := TradeNotFound \<rparr>, db, [])
      | Some trade \<Rightarrow>
          if t_status trade \<noteq> OPEN then (svc_result0 \<lparr> sr_message := TradeNotOpen \<rparr>, db, [])
          else (case close_position ex (t_pair trade) of
                  (close_result, calls) \<Rightarrow>
                    if o_success close_result
                    then (let t' = closed_trade trade close_result now
                          in (\<lparr> sr_success = True, sr_signal = None, sr_trade = Some t',
                                 sr_message = TradeClosed \<rparr>,
                              db \<lparr> trades := map (\<lambda>t. if t_id t = trade_id then t' else t) (trades db) \<rparr>,
                              calls))
                    else (svc_result0 \<lparr> sr_message := CloseFailed \<rparr>, db, calls)))"

text \<open>
  \<open>sync_positions_with_binance\<close>: every open trade of the user whose pair the exchange
  no longer lists is closed; the exit reason and the exit price are set when a price is
  at hand.
\<close>

definition exit_reason_for :: "Trade \<Rightarrow> rat \<Rightarrow> str" where
  "exit_reason_for trade current_price =
     (if t_side trade = LONG
      then (if set_and (t_stop_loss trade) (\<lambda>sl. current_price \<le> sl) then U ''SL_HIT''
            else if set_and (t_take_profit trade) (\<lambda>tp. current_price \<ge> tp) then U ''TP_HIT''
            else U ''UNKNOWN'')
      else (if set_and (t_stop_loss trade) (\<lambda>sl. current_price \<ge> sl) then U ''SL_HIT''
            else if set_and (t_take_profit trade) (\<lambda>tp. current_price \<le> tp) then U ''TP_HIT''
            else U ''UNKNOWN''))"

definition sync_trade :: "exchange \<Rightarrow> nat \<Rightarrow> Trade \<Rightarrow> Trade" where
  "sync_trade ex now trade =
     (let t1 = trade \<lparr> t_status := CLOSED, t_closed_at := Some now \<rparr>
      in case get_current_price ex (t_pair trade) of
           None \<Rightarrow> t1
         | Some current_price \<Rightarrow>
             if current_price = 0 then t1
             else t1 \<lparr> t_exit_reason := Some (exit_reason_for trade current_price),
                       t_exit_price := Some current_price \<rparr>)"

definition sync_positions_with_binance :: "exchange \<Rightarrow> nat \<Rightarrow> database \<Rightarrow> nat \<Rightarrow> database" where
  "sync_positions_with_binance ex now db user_id =
     (let binance_symbols = set (map p_symbol (get_positions ex))
      in db \<lparr> trades :=
           map (\<lambda>trade. if t_user_id trade = user_id \<and> t_status trade = OPEN
                            \<and> t_pair trade \<notin> binance_symbols
                         then sync_trade ex now trade else trade)
               (trades db) \<rparr>)"

section \<open>Auxiliary notions and sample inputs\<close>


text \<open>
  A sample exchange: no live position, every symbol capped at 20x, lot size 0.001 and a
  minimum notional of 5, every limit order accepted and left resting, every protective
  and market order rejected.
\<close>

definition failed_order :: OrderResult where
  "failed_order = \<lparr> o_success = False, o_order_id = None, o_quantity = None, o_price = None,
                    o_status = None, o_message = Some (U ''rejected'') \<rparr>"

definition resting_order :: "rat \<Rightarrow> rat \<Rightarrow> OrderResult" where
  "resting_order q p = \<lparr> o_success = True, o_order_id = Some (U ''1001''), o_quantity = Some q,
                         o_price = Some p, o_status = Some (U ''NEW''), o_message = None \<rparr>"

definition demo_rules :: symbol_info where
  "demo_rules = \<lparr> filters =
      [\<lparr> filterType = U ''PRICE_FILTER'', stepSize = None, notional = None \<rparr>,
       \<lparr> filterType = U ''LOT_SIZE'', stepSize = Some (U ''0.001''), notional = None \<rparr>,
       \<lparr> filterType = U ''MIN_NOTIONAL'', stepSize = None, notional = Some 5 \<rparr>] \<rparr>"

definition demo_exchange :: exchange where
  "demo_exchange =
     \<lparr> get_positions = [],
       get_max_leverage = (\<lambda>symbol. 20),
       leverage_accepted = (\<lambda>symbol lev. True),
       get_symbol_info = (\<lambda>symbol. Some demo_rules),
       get_current_price = (\<lambda>symbol. Some 42000),
       place_limit_order = (\<lambda>symbol side q p tif. resting_order q p),
       place_stop_loss = (\<lambda>symbol side p q. failed_order),
       place_take_profit = (\<lambda>symbol side p q. failed_order),
       place_market_order = (\<lambda>symbol side q reduce_only. failed_order) \<rparr>"

definition demo_trade :: Trade where
  "demo_trade =
     \<lparr> t_id = 1, t_user_id = 1, t_signal_id = Some 1, t_pair = U ''BTCUSDT'', t_side = LONG,
       t_leverage = 20, t_entry_price = Some 42000, t_entry_quantity = Some (3 / 125),
       t_binance_order_id = Some (U ''1001''), t_stop_loss = Some 39900,
       t_take_profit = Some 43050, t_tp = Some 43050, t_status = OPEN,
       t_opened_at = Some 10, t_closed_at = None, t_exit_price = None, t_pnl = None,
       t_pnl_percent = None, t_exit_reason = None, t_created_at = 10 \<rparr>"

definition demo_db :: database where
  "demo_db = \<lparr> market_messages = [], signal_messages = [], trades = [demo_trade], configs = [] \<rparr>"







text \<open>An empty database, and an exchange whose lot size is the whole unit \<open>1\<close>.\<close>

definition empty_db :: database where
  "empty_db = \<lparr> market_messages = [], signal_messages = [], trades = [], configs = [] \<rparr>"



section \<open>Properties of the exchange gateway\<close>













section \<open>Properties of the trade service\<close>

text \<open>
  Claim C10. If the trade does not exist, or is not \<open>OPEN\<close>, or the exchange-side
  close fails, \<open>close_trade\<close> returns an unsuccessful result and leaves the database
  as it was: the trade row keeps its status, closing time, exit price, exit reason and
  profit figures.
\<close>

theorem close_trade_failure_keeps_record:
  assumes "find (\<lambda>t. t_id t = trade_id) (trades db) = None
           \<or> (\<exists>trade. find (\<lambda>t. t_id t = trade_id) (trades db) = Some trade
                 \<and> (t_status trade \<noteq> OPEN \<or> \<not> o_success (fst (close_position ex (t_pair trade)))))"
  shows "\<not> sr_success (fst (close_trade ex now db trade_id))
         \<and> fst (snd (close_trade ex now db trade_id)) = db"
  using assms
  by (auto simp: close_trade_def svc_result0_def split: option.splits prod.splits)

theorem close_trade_failure_keeps_record_witness:
  "find (\<lambda>t. t_id t = 1) (trades demo_db) = Some demo_trade
   \<and> \<not> o_success (fst (close_position demo_exchange (t_pair demo_trade)))
   \<and> \<not> sr_success (fst (close_trade demo_exchange 99 demo_db 1))
   \<and> fst (snd (close_trade demo_exchange 99 demo_db 1)) = demo_db"
proof -
  have h1: "find (\<lambda>t. t_id t = 1) (trades demo_db) = Some demo_trade"
    by (simp add: demo_db_def demo_trade_def)
  have h2: "\<not> o_success (fst (close_position demo_exchange (t_pair demo_trade)))"
    by (simp add: close_position_def get_position_for_symbol_def demo_exchange_def)
  show ?thesis
    using close_trade_failure_keeps_record [of 1 demo_db demo_exchange 99] h1 h2
    by blast
qed

lemma get_config_keeps:
  "trades (snd (get_config st now db u)) = trades db
   \<and> signal_messages (snd (get_config st now db u)) = signal_messages db
   \<and> market_messages (snd (get_config st now db u)) = market_messages db"
  by (simp add: get_config_def Let_def split: option.split)








lemma execute_keeps_market_messages:
  "market_messages (fst (snd (execute_trade_from_signal T ex st now db signal_id user_id)))
     = market_messages db"
  by (simp add: execute_trade_from_signal_def Let_def case_prod_beta get_config_keeps split: option.split)

lemma process_stores:
  "market_messages (fst (snd (process_telegram_message T ex st now db mi user_id auto_execute)))
     = market_messages db @ [\<lparr> m_id = next_id (map m_id (market_messages db)), m_sender = sender mi,
                                m_text = text_of mi, m_timestamp = now \<rparr>]"
  by (simp add: process_telegram_message_def Let_def case_prod_beta get_config_keeps
        execute_keeps_market_messages split: option.split)

text \<open>
  Claim C8, as amended. Every message handed to \<open>process_telegram_message\<close> is stored
  as a raw-message row, whether or not a signal can be extracted from it. The listener's
  handler, however, passes a message on only if it holds a \<open>#\<close> and the handler's own
  parse succeeds: for any other message it leaves the database as it was, and stores
  nothing.
\<close>

theorem raw_message_stored_by_service_not_by_listener:
  "market_messages (fst (snd (process_telegram_message T ex st now db mi user_id auto_execute)))
     = market_messages db @ [\<lparr> m_id = next_id (map m_id (market_messages db)), m_sender = sender mi,
                                m_text = text_of mi, m_timestamp = now \<rparr>]
   \<and> (35 \<notin> set txt \<or> parse_message T default_parser txt = None
        \<longrightarrow> fst (handle_signal T ex st now db txt sndr) = db)
   \<and> (35 \<in> set txt \<and> parse_message T default_parser txt \<noteq> None
        \<longrightarrow> market_messages (fst (handle_signal T ex st now db txt sndr))
              = market_messages db @ [\<lparr> m_id = next_id (map m_id (market_messages db)),
                                         m_sender = Some sndr, m_text = txt, m_timestamp = now \<rparr>])"
  using process_stores [of T ex st now db "\<lparr> text_of = txt, sender = Some sndr, channel = Some (U ''Telegram Auto'') \<rparr>" 1 "settings_auto_execute_trades st"]
    process_stores [of T ex st now db mi user_id auto_execute]
  by (auto simp add: handle_signal_def case_prod_beta split: option.split)

theorem raw_message_stored_by_service_not_by_listener_witness:
  "35 \<in> set (U ''#BTCUSDT'') \<and> parse_message latin1 default_parser (U ''#BTCUSDT'') = None
   \<and> fst (handle_signal latin1 demo_exchange settings0 5 empty_db (U ''#BTCUSDT'') (U ''bob'')) = empty_db"
proof -
  have h: "parse_message latin1 default_parser (U ''#BTCUSDT'') = None" by code_simp
  have i: "35 \<in> set (U ''#BTCUSDT'')" by code_simp
  show ?thesis
    using raw_message_stored_by_service_not_by_listener [of latin1 demo_exchange settings0 5 empty_db "\<lparr> text_of = [], sender = None, channel = None \<rparr>" 1 False "U ''#BTCUSDT''" "U ''bob''"] h i
    by simp
qed

text \<open>
  Claim C8 as stated fails: the text \<open>#hello\<close> passes the listener's pre-filter, none of
  the pair, direction and entry extractions succeeds on it, and the handler returns with
  no raw-message row stored.
\<close>

theorem listener_drops_unparsed_message_counterexample:
  "35 \<in> set (U ''#hello'')
   \<and> extract_pair latin1 (U ''#hello'') = None
   \<and> extract_direction latin1 (U ''#hello'') = None
   \<and> extract_entry latin1 (U ''#hello'') = None
   \<and> market_messages (fst (handle_signal latin1 demo_exchange settings0 5 empty_db (U ''#hello'') (U ''bob''))) = []"
  by code_simp

section \<open>Properties of the quantity derivation\<close>



end
